theory Spec2Isabelle
  imports Complex_Main
begin

section \<open>Evaluation of a BraTS segmentation model: \<^verbatim>\<open>segmentation/evaluate.py\<close>\<close>

text \<open>
  The development embeds the functions of \<^verbatim>\<open>evaluate.py\<close> in HOL. Floating point
  numbers are read as reals (rounding is not modelled), Python integers as \<open>int\<close> or
  \<open>nat\<close>, exceptions as the left summand of a sum type.
\<close>

subsection \<open>Exceptions\<close>

text \<open>
  \<open>IndexError\<close>, \<open>ValueError\<close> and \<open>TypeError\<close> are the Python exceptions of that name.
  \<open>NonFiniteFloat\<close> marks the one place where numpy does not raise but yields \<open>inf\<close> or
  \<open>nan\<close> (a division by zero among \<open>float64\<close> scalars): the reals have no such value.
  \<open>External\<close> is a failure of a collaborator that is not part of the file (the model, the
  data set).
\<close>

datatype error = IndexError | ValueError | TypeError | NonFiniteFloat | External string

subsection \<open>Arrays\<close>

text \<open>
  A numpy array is its shape and its elements in row-major order, which is the order
  of \<^verbatim>\<open>np.ravel\<close>. An array is well formed when the number of elements is the product
  of the shape.
\<close>

datatype 'a ndarray = NDArray (shape: "nat list") (data: "'a list")

definition wf_ndarray :: "'a ndarray \<Rightarrow> bool" where
  "wf_ndarray a = (length (data a) = prod_list (shape a))"

definition ndim :: "'a ndarray \<Rightarrow> nat" where
  "ndim a = length (shape a)"

text \<open>All multi-indices of a shape, in row-major order, and the offset of one of them.\<close>

fun all_indices :: "nat list \<Rightarrow> nat list list" where
  "all_indices [] = [[]]"
| "all_indices (n # ns) = concat (map (\<lambda>i. map ((#) i) (all_indices ns)) [0..<n])"

definition flat_index :: "nat list \<Rightarrow> nat list \<Rightarrow> nat" where
  "flat_index sh idx = foldl (\<lambda>acc (n, i). acc * n + i) 0 (zip sh idx)"

definition nd_get :: "'a ndarray \<Rightarrow> nat list \<Rightarrow> 'a" where
  "nd_get a idx = data a ! flat_index (shape a) idx"

definition nd_build :: "nat list \<Rightarrow> (nat list \<Rightarrow> 'a) \<Rightarrow> 'a ndarray" where
  "nd_build sh f = NDArray sh (map f (all_indices sh))"

definition nd_map :: "('a \<Rightarrow> 'b) \<Rightarrow> 'a ndarray \<Rightarrow> 'b ndarray" where
  "nd_map f a = NDArray (shape a) (map f (data a))"

text \<open>\<^verbatim>\<open>np.ravel(a)\<close> and \<^verbatim>\<open>a.sum()\<close> (also \<^verbatim>\<open>np.sum(a)\<close>).\<close>

definition ravel :: "'a ndarray \<Rightarrow> 'a list" where
  "ravel a = data a"

definition nd_sum :: "('a::monoid_add) ndarray \<Rightarrow> 'a" where
  "nd_sum a = sum_list (data a)"

subsection \<open>\<^verbatim>\<open>to_single_class\<close>\<close>

text \<open>
  \<^verbatim>\<open>
  def to_single_class(seg, threshold):
      _seg = np.copy(seg)
      _seg[seg >= threshold] = 1
      _seg[seg < threshold] = 0
      return _seg.astype(int)
  \<close>
  Both masks are computed from the argument \<open>seg\<close>, not from the copy being written.
  \<^verbatim>\<open>astype(int)\<close> truncates towards zero.
\<close>

definition astype_int :: "real \<Rightarrow> int" where
  "astype_int x = (if 0 \<le> x then \<lfloor>x\<rfloor> else \<lceil>x\<rceil>)"

definition to_single_class :: "real ndarray \<Rightarrow> real \<Rightarrow> int ndarray" where
  "to_single_class seg threshold =
     (let seg1 = map (\<lambda>x. if x \<ge> threshold then 1 else x) (data seg);
          seg2 = map2 (\<lambda>x y. if x < threshold then 0 else y) (data seg) seg1
      in NDArray (shape seg) (map astype_int seg2))"

text \<open>An integer array read as an array of reals: what numpy does when the result of
  \<open>to_single_class\<close> is compared with a float threshold again.\<close>

definition as_real :: "int ndarray \<Rightarrow> real ndarray" where
  "as_real a = nd_map real_of_int a"

subsection \<open>\<^verbatim>\<open>dice_coefficient\<close>\<close>

text \<open>
  \<^verbatim>\<open>
  def dice_coefficient(pred, truth, smooth=0.02):
      _pred = np.ravel(pred)
      _truth = np.ravel(truth)
      intersection = np.logical_and(_pred, _truth)
      return (2 * intersection.sum() + smooth) / (pred.sum() + truth.sum() + smooth)
  \<close>
  \<^verbatim>\<open>np.logical_and\<close> of two one-dimensional arrays broadcasts: the lengths are equal, or
  one of them is 1; otherwise it raises \<open>ValueError\<close>. The sum of a Boolean array counts
  its \<open>True\<close> entries.
\<close>

definition logical_and :: "int list \<Rightarrow> int list \<Rightarrow> error + bool list" where
  "logical_and xs ys =
     (if length xs = length ys then Inr (map2 (\<lambda>x y. x \<noteq> 0 \<and> y \<noteq> 0) xs ys)
      else if length xs = 1 then Inr (map (\<lambda>y. hd xs \<noteq> 0 \<and> y \<noteq> 0) ys)
      else if length ys = 1 then Inr (map (\<lambda>x. x \<noteq> 0 \<and> hd ys \<noteq> 0) xs)
      else Inl ValueError)"

definition bool_sum :: "bool list \<Rightarrow> int" where
  "bool_sum bs = int (length (filter (\<lambda>b. b) bs))"

definition dice_coefficient :: "int ndarray \<Rightarrow> int ndarray \<Rightarrow> real \<Rightarrow> error + real" where
  "dice_coefficient pred truth smooth =
     (case logical_and (ravel pred) (ravel truth) of
        Inl e \<Rightarrow> Inl e
      | Inr intersection \<Rightarrow>
          (let num = 2 * real_of_int (bool_sum intersection) + smooth;
               den = real_of_int (nd_sum pred) + real_of_int (nd_sum truth) + smooth
           in if den = 0 then Inl NonFiniteFloat else Inr (num / den)))"

definition default_smooth :: real where
  "default_smooth = 2 / 100"

text \<open>A mask is binarized when every element is 0 or 1.\<close>

definition binarized :: "int ndarray \<Rightarrow> bool" where
  "binarized a = list_all (\<lambda>x. x = 0 \<or> x = 1) (data a)"

subsection \<open>Patients\<close>

text \<open>
  The class \<^verbatim>\<open>BraTS.Patient\<close> is not part of the file. The file reads four attributes
  of a patient: \<^verbatim>\<open>id\<close>, \<^verbatim>\<open>mri\<close>, \<^verbatim>\<open>flair\<close> and \<^verbatim>\<open>seg\<close>. Nothing is assumed about
  the number of axes of the arrays: every operation below checks what numpy checks.
\<close>

record patient =
  patient_id :: string
  mri :: "real ndarray"
  flair :: "real ndarray"
  seg :: "real ndarray"

subsection \<open>Indexing\<close>

text \<open>
  \<^verbatim>\<open>a.shape[k]\<close> raises \<open>IndexError\<close> when the shape tuple has no position \<open>k\<close>.
  \<^verbatim>\<open>a[:, :, i]\<close> and \<^verbatim>\<open>a[:, i, :]\<close> need three axes at least and an index inside the
  axis (the indices of the file are never negative); the axis that was indexed
  disappears from the shape. \<^verbatim>\<open>a.T\<close> reverses the axes. \<^verbatim>\<open>a[::-1, :]\<close> needs two axes
  and reverses the first. \<^verbatim>\<open>a[..., 3:]\<close> needs one axis and drops the first three
  positions of the last.
\<close>

definition shape_at :: "'a ndarray \<Rightarrow> nat \<Rightarrow> error + nat" where
  "shape_at a k = (if k < length (shape a) then Inr (shape a ! k) else Inl IndexError)"

definition index_axis2 :: "'a ndarray \<Rightarrow> nat \<Rightarrow> error + 'a ndarray" where
  "index_axis2 a i =
     (if ndim a < 3 then Inl IndexError
      else if shape a ! 2 \<le> i then Inl IndexError
      else Inr (nd_build (take 2 (shape a) @ drop 3 (shape a))
                  (\<lambda>j. nd_get a (take 2 j @ i # drop 2 j))))"

definition index_axis1 :: "'a ndarray \<Rightarrow> nat \<Rightarrow> error + 'a ndarray" where
  "index_axis1 a i =
     (if ndim a < 3 then Inl IndexError
      else if shape a ! 1 \<le> i then Inl IndexError
      else Inr (nd_build (take 1 (shape a) @ drop 2 (shape a))
                  (\<lambda>j. nd_get a (take 1 j @ i # drop 1 j))))"

definition transpose_nd :: "'a ndarray \<Rightarrow> 'a ndarray" where
  "transpose_nd a = nd_build (rev (shape a)) (\<lambda>j. nd_get a (rev j))"

definition flip_first :: "'a ndarray \<Rightarrow> error + 'a ndarray" where
  "flip_first a =
     (if ndim a < 2 then Inl IndexError
      else Inr (nd_build (shape a) (\<lambda>j. nd_get a ((hd (shape a) - 1 - hd j) # tl j))))"

definition crop :: "'a ndarray \<Rightarrow> error + 'a ndarray" where
  "crop img =
     (if shape img = [] then Inl IndexError
      else Inr (nd_build (butlast (shape img) @ [last (shape img) - 3])
                  (\<lambda>j. nd_get img (butlast j @ [last j + 3]))))"

definition expand_dims0 :: "'a ndarray \<Rightarrow> 'a ndarray" where
  "expand_dims0 a = NDArray (1 # shape a) (data a)"

subsection \<open>\<^verbatim>\<open>get_tumor_range\<close>\<close>

text \<open>
  \<^verbatim>\<open>
  def get_tumor_range(patient):
      """
      Finds where the tumor exists in a patient's images

      :param patient: Patient object containing the MRI/segmentation
      :return: Returns a list of indices in the last axis
      of the patient MRI/Segmentation that contain the tumor
      """
      assert isinstance(patient, Patient)
      tumor_range = list()
      for i in range(patient.seg.shape[3]):
          if np.sum(patient.seg[:, :, i]) != 0:
              tumor_range.append(i)
      return tumor_range
  \<close>
  The loop is a recursion over \<^verbatim>\<open>range(patient.seg.shape[3])\<close>; an exception of the body
  leaves it.
\<close>

definition slice_sum :: "real ndarray \<Rightarrow> nat \<Rightarrow> error + real" where
  "slice_sum a i = (case index_axis2 a i of Inl e \<Rightarrow> Inl e | Inr s \<Rightarrow> Inr (nd_sum s))"

fun tumor_loop :: "real ndarray \<Rightarrow> nat list \<Rightarrow> nat list \<Rightarrow> error + nat list" where
  "tumor_loop a [] tumor_range = Inr tumor_range"
| "tumor_loop a (i # rest) tumor_range =
     (case slice_sum a i of
        Inl e \<Rightarrow> Inl e
      | Inr s \<Rightarrow> tumor_loop a rest (if s \<noteq> 0 then tumor_range @ [i] else tumor_range))"

definition get_tumor_range :: "patient \<Rightarrow> error + nat list" where
  "get_tumor_range patient =
     (case shape_at (seg patient) 3 of
        Inl e \<Rightarrow> Inl e
      | Inr n \<Rightarrow> tumor_loop (seg patient) [0..<n] [])"

subsection \<open>\<^verbatim>\<open>random.choices\<close> and the choice of slices\<close>

text \<open>
  \<^verbatim>\<open>random.choices(population, weights=weights, k=k)\<close> of the Python library, with the
  branches the call of the file can reach:
  \<^verbatim>\<open>
      n = len(population)
      cum_weights = list(_accumulate(weights))
      if len(cum_weights) != n:
          raise ValueError('The number of weights does not match the population')
      total = cum_weights[-1] + 0.0   # convert to float
      if total <= 0.0:
          raise ValueError('Total of weights must be greater than zero')
      bisect = _bisect
      hi = n - 1
      return [population[bisect(cum_weights, random() * total, 0, hi)]
              for i in _repeat(None, k)]
  \<close>
  \<^verbatim>\<open>cum_weights[-1]\<close> raises \<open>IndexError\<close> on an empty list. The test of the total is
  in the library from Python 3.9 on. The versions before it, on which a program of
  TensorFlow 1 runs, have no such test: with a total that is not positive they go on to
  the last line and draw all the same. Which library runs the file is not fixed by the
  file, so the model takes it as the argument \<open>checks_total\<close>. The values of
  \<^verbatim>\<open>random()\<close> are a sequence \<open>random\<close> given to the model, read from position \<open>pos\<close> on;
  each lies in \<open>[0, 1)\<close>, which no result below depends on. \<open>bisect\<close> is
  \<^verbatim>\<open>bisect.bisect_right\<close>.
\<close>

fun accumulate_from :: "real \<Rightarrow> real list \<Rightarrow> real list" where
  "accumulate_from s [] = []"
| "accumulate_from s (w # ws) = (s + w) # accumulate_from (s + w) ws"

definition accumulate :: "real list \<Rightarrow> real list" where
  "accumulate ws = accumulate_from 0 ws"

function bisect :: "real list \<Rightarrow> real \<Rightarrow> nat \<Rightarrow> nat \<Rightarrow> nat" where
  "bisect a x lo hi =
     (if lo < hi
      then (if x < a ! ((lo + hi) div 2)
            then bisect a x lo ((lo + hi) div 2)
            else bisect a x ((lo + hi) div 2 + 1) hi)
      else lo)"
  by pat_completeness auto
termination
  by (relation "measure (\<lambda>(a, x, lo, hi). hi - lo)") auto

declare bisect.simps [simp del]

definition choices ::
  "bool \<Rightarrow> (nat \<Rightarrow> real) \<Rightarrow> nat \<Rightarrow> 'a list \<Rightarrow> real list \<Rightarrow> nat \<Rightarrow> error + 'a list" where
  "choices checks_total random pos population weights k =
     (let n = length population;
          cum_weights = accumulate weights
      in if length cum_weights \<noteq> n then Inl ValueError
         else if cum_weights = [] then Inl IndexError
         else if checks_total \<and> last cum_weights \<le> 0 then Inl ValueError
         else Inr (map (\<lambda>i. population ! bisect cum_weights (random (pos + i) * last cum_weights) 0 (n - 1))
                     [0..<k]))"

text \<open>
  Lines 112 and 113 of \<^verbatim>\<open>make_images\<close>, the choice of the slices to render:
  \<^verbatim>\<open>
      weights = [np.sum(patient.seg[:, :, i]) for i in tumor_range]
      coronal_slices = sorted(random.choices(tumor_range, weights=weights, k=num_images))
  \<close>
\<close>

fun slice_weights :: "real ndarray \<Rightarrow> nat list \<Rightarrow> error + real list" where
  "slice_weights a [] = Inr []"
| "slice_weights a (i # rest) =
     (case slice_sum a i of
        Inl e \<Rightarrow> Inl e
      | Inr s \<Rightarrow> (case slice_weights a rest of Inl e \<Rightarrow> Inl e | Inr ws \<Rightarrow> Inr (s # ws)))"

definition coronal_slices ::
  "bool \<Rightarrow> (nat \<Rightarrow> real) \<Rightarrow> nat \<Rightarrow> nat list \<Rightarrow> real list \<Rightarrow> nat \<Rightarrow> error + nat list" where
  "coronal_slices checks_total random pos tumor_range weights num_images =
     (case choices checks_total random pos tumor_range weights num_images of
        Inl e \<Rightarrow> Inl e
      | Inr chosen \<Rightarrow> Inr (sort chosen))"

subsection \<open>\<^verbatim>\<open>log_metrics\<close>\<close>

text \<open>
  \<^verbatim>\<open>
  def log_metrics(dice_coefficients, name):
      mean_dice = np.mean(dice_coefficients)
      std_dice = np.std(dice_coefficients)
      min_dice = np.min(dice_coefficients)
      max_dice = np.max(dice_coefficients)

      logger.info("%s evaluation complete. Stats:" % name)
      logger.info("mean dice: %s" % mean_dice)
      logger.info("std dice: %s" % std_dice)
      logger.info("min dice: %s" % min_dice)
      logger.info("max dice: %s" % max_dice)
  \<close>
  On an empty list \<^verbatim>\<open>np.mean\<close> and \<^verbatim>\<open>np.std\<close> return \<open>nan\<close> with a warning, and
  \<^verbatim>\<open>np.min\<close> raises \<open>ValueError\<close> before any line is logged. \<^verbatim>\<open>np.std\<close> is the
  population standard deviation. A log line is kept as its text and the number
  formatted into it.
\<close>

datatype message =
    Text string
  | Patient_dice string real
  | Evaluation_complete string
  | Mean_dice real
  | Std_dice real
  | Min_dice real
  | Max_dice real

definition np_mean :: "real list \<Rightarrow> real" where
  "np_mean xs = sum_list xs / real (length xs)"

definition np_std :: "real list \<Rightarrow> real" where
  "np_std xs = sqrt (np_mean (map (\<lambda>x. \<bar>x - np_mean xs\<bar> ^ 2) xs))"

definition np_min :: "real list \<Rightarrow> real" where
  "np_min xs = fold min (tl xs) (hd xs)"

definition np_max :: "real list \<Rightarrow> real" where
  "np_max xs = fold max (tl xs) (hd xs)"

definition log_metrics :: "real list \<Rightarrow> string \<Rightarrow> error + message list" where
  "log_metrics dice_coefficients name =
     (if dice_coefficients = [] then Inl ValueError
      else let mean_dice = np_mean dice_coefficients;
               std_dice = np_std dice_coefficients;
               min_dice = np_min dice_coefficients;
               max_dice = np_max dice_coefficients
           in Inr [Evaluation_complete name, Mean_dice mean_dice, Std_dice std_dice,
                   Min_dice min_dice, Max_dice max_dice])"

subsection \<open>The world outside the file\<close>

text \<open>
  The collaborators that the file reaches without receiving them as arguments: the
  Python library (whether its \<^verbatim>\<open>random.choices\<close> tests the total of the weights), the
  values of \<^verbatim>\<open>random.random()\<close>, the colour map \<^verbatim>\<open>plt.cm.RdYlBu\<close> (a float to its RGBA
  colour), the data set \<^verbatim>\<open>BraTS.DataSet(brats_root=config.brats_directory, year=2018)\<close>
  and the result of \<^verbatim>\<open>get_all_partition_ids()\<close> (train, test and validation ids, in
  that order). A data set gives its splits as attributes, and a split looks a patient
  up by id (\<^verbatim>\<open>brats.train.patient(id)\<close>); constructing the data set, looking a patient up
  and reading the partitions may fail.
\<close>

record dataset =
  train :: "string \<Rightarrow> error + patient"
  validation :: "string \<Rightarrow> error + patient"

record externals =
  ext_checks_total :: bool
  ext_random :: "nat \<Rightarrow> real"
  ext_cmap :: "real \<Rightarrow> real \<times> real \<times> real \<times> real"
  ext_dataset :: "error + dataset"
  ext_partition_ids :: "error + (string list \<times> string list \<times> string list)"

text \<open>
  What a run does to the outside is kept as a list of events, the oldest first. A
  figure is what was drawn on its two axes when \<^verbatim>\<open>fig.savefig\<close> is reached; its file is
  \<^verbatim>\<open>"%s_%d.png" % (patient.id, coronal_index)\<close> in the output directory, kept here as the
  directory, the id and the index. A path is the list of the components given to
  \<^verbatim>\<open>os.path.join\<close>.
\<close>

record figure =
  left_subject :: string
  left_image :: "real ndarray"
  left_overlay :: "real ndarray"
  right_dice :: real
  right_image :: "real ndarray"
  right_overlay :: "real ndarray"

datatype split = Train | Validation

datatype event =
    Mkdir "string list"
  | Fetch split string
  | Drop_cache
  | Info message
  | Savefig "string list" string nat figure

record world =
  events :: "event list"
  rng :: nat

definition emit :: "event \<Rightarrow> world \<Rightarrow> world" where
  "emit e w = w\<lparr>events := events w @ [e]\<rparr>"

subsection \<open>\<^verbatim>\<open>make_image\<close>\<close>

text \<open>
  \<^verbatim>\<open>
  def make_image(patient, segmentation, coronal_index, dice, output_dir):
      _img = patient.flair[:, coronal_index, :].T[::-1, :]
      _seg = to_single_class(patient.seg, threshold=0.5)[:, coronal_index, :].T[::-1, :]

      vmax = 1
      vmin = 0
      cmap = plt.cm.RdYlBu

      colors = Normalize(vmin, vmax, clip=True)(_seg)
      colors = cmap(colors)
      colors[..., -1] = _seg

      fig, axarr = plt.subplots(1, 2)
      axarr[0].set_title("Subject: %s" % patient.id)
      axarr[0].imshow(_img, cmap='gray')
      axarr[0].imshow(colors)
      axarr[0].set_axis_off()

      colors_p = Normalize(vmin, vmax, clip=True)(segmentation)
      colors_p = cmap(colors)
      colors_p[..., -1] = segmentation

      axarr[1].set_title("UNet Prediction, dice: %f" % dice)
      axarr[1].imshow(_img, cmap='gray')
      axarr[1].imshow(colors_p)
      axarr[1].set_axis_off()

      out_file = os.path.join(output_dir, "%s_%d.png" % (patient.id, coronal_index))
      fig.savefig(out_file)
  \<close>
  The library calls, as numpy and matplotlib define them:
  \<^item> \<^verbatim>\<open>Normalize(vmin, vmax, clip=True)(X)\<close> clips every element to \<open>[vmin, vmax]\<close> and scales
    it to \<open>[0, 1]\<close>;
  \<^item> a colour map applied to a float array of shape \<open>s\<close> gives the array of the RGBA colours,
    of shape \<open>s + (4,)\<close>;
  \<^item> \<^verbatim>\<open>A[..., -1] = V\<close> broadcasts \<open>V\<close> to the shape of \<open>A\<close> without its last axis and writes
    it to the last position of that axis. In an assignment numpy first drops leading
    axes of length 1 from \<open>V\<close> while it has more axes than the target; then every axis of
    \<open>V\<close>, aligned from the right, must have the target's length or length 1, otherwise
    \<open>ValueError\<close> is raised;
  \<^item> \<^verbatim>\<open>imshow(X)\<close> raises \<open>TypeError\<close> unless \<open>X\<close> has two axes, or three with a last axis
    of length 1, 3 or 4.
  The first assignment to \<open>colors_p\<close> is overwritten by the second and raises nothing.
\<close>

definition normalize :: "real \<Rightarrow> real \<Rightarrow> real ndarray \<Rightarrow> real ndarray" where
  "normalize vmin vmax X = nd_map (\<lambda>x. (min vmax (max vmin x) - vmin) / (vmax - vmin)) X"

definition apply_cmap :: "(real \<Rightarrow> real \<times> real \<times> real \<times> real) \<Rightarrow> real ndarray \<Rightarrow> real ndarray" where
  "apply_cmap cm X =
     NDArray (shape X @ [4]) (concat (map (\<lambda>x. case cm x of (r, g, b, a) \<Rightarrow> [r, g, b, a]) (data X)))"

fun strip_ones :: "nat \<Rightarrow> nat list \<Rightarrow> nat list" where
  "strip_ones n [] = []"
| "strip_ones n (d # ds) = (if n < length (d # ds) \<and> d = 1 then strip_ones n ds else d # ds)"

definition broadcast_to :: "nat list \<Rightarrow> 'a ndarray \<Rightarrow> error + 'a ndarray" where
  "broadcast_to target v =
     (let vsh = strip_ones (length target) (shape v)
      in if length target < length vsh then Inl ValueError
         else let psh = replicate (length target - length vsh) 1 @ vsh
              in if list_all2 (\<lambda>p t. p = t \<or> p = 1) psh target
                 then Inr (nd_build target
                        (\<lambda>j. data v ! flat_index psh (map2 (\<lambda>p i. if p = 1 then 0 else i) psh j)))
                 else Inl ValueError)"

definition set_last :: "real ndarray \<Rightarrow> real ndarray \<Rightarrow> error + real ndarray" where
  "set_last A V =
     (if shape A = [] then Inl IndexError
      else if last (shape A) = 0 then Inl IndexError
      else (case broadcast_to (butlast (shape A)) V of
              Inl e \<Rightarrow> Inl e
            | Inr B \<Rightarrow>
                Inr (nd_build (shape A)
                       (\<lambda>j. if last j = last (shape A) - 1 then nd_get B (butlast j)
                            else nd_get A j))))"

definition imshow_ok :: "'a ndarray \<Rightarrow> bool" where
  "imshow_ok X =
     (ndim X = 2 \<or>
      (ndim X = 3 \<and> (last (shape X) = 1 \<or> last (shape X) = 3 \<or> last (shape X) = 4)))"

text \<open>The display transform \<^verbatim>\<open>X[:, coronal_index, :].T[::-1, :]\<close> of lines 74 and 75.\<close>

definition display :: "'a ndarray \<Rightarrow> nat \<Rightarrow> error + 'a ndarray" where
  "display X coronal_index =
     (case index_axis1 X coronal_index of
        Inl e \<Rightarrow> Inl e
      | Inr s \<Rightarrow> flip_first (transpose_nd s))"

text \<open>The array \<open>colors\<close> of lines 81 to 83, from \<open>_seg\<close>; the array \<open>colors_p\<close> of lines 92
  and 93, from \<open>colors\<close> and the argument \<open>segmentation\<close>.\<close>

definition colors_of :: "(real \<Rightarrow> real \<times> real \<times> real \<times> real) \<Rightarrow> int ndarray \<Rightarrow> error + real ndarray" where
  "colors_of cm sg = set_last (apply_cmap cm (normalize 0 1 (as_real sg))) (as_real sg)"

definition colors_p_of ::
  "(real \<Rightarrow> real \<times> real \<times> real \<times> real) \<Rightarrow> real ndarray \<Rightarrow> int ndarray \<Rightarrow> error + real ndarray" where
  "colors_p_of cm colors segmentation = set_last (apply_cmap cm colors) (as_real segmentation)"

definition make_image ::
  "(real \<Rightarrow> real \<times> real \<times> real \<times> real) \<Rightarrow> patient \<Rightarrow> int ndarray \<Rightarrow> nat \<Rightarrow> real \<Rightarrow> string list
     \<Rightarrow> world \<Rightarrow> world \<times> (error + unit)" where
  "make_image cm patient segmentation coronal_index dice output_dir w =
     (case display (flair patient) coronal_index of
        Inl e \<Rightarrow> (w, Inl e)
      | Inr img \<Rightarrow>
     (case display (to_single_class (seg patient) (1 / 2)) coronal_index of
        Inl e \<Rightarrow> (w, Inl e)
      | Inr sg \<Rightarrow>
     (case colors_of cm sg of
        Inl e \<Rightarrow> (w, Inl e)
      | Inr colors \<Rightarrow>
     if imshow_ok img then
     if imshow_ok colors then
     (case colors_p_of cm colors segmentation of
        Inl e \<Rightarrow> (w, Inl e)
      | Inr colors_p \<Rightarrow>
     if imshow_ok colors_p then
       (emit (Savefig output_dir (patient_id patient) coronal_index
                \<lparr>left_subject = patient_id patient, left_image = img, left_overlay = colors,
                 right_dice = dice, right_image = img, right_overlay = colors_p\<rparr>) w,
        Inr ())
     else (w, Inl TypeError))
     else (w, Inl TypeError)
     else (w, Inl TypeError))))"

subsection \<open>\<^verbatim>\<open>make_images\<close>\<close>

text \<open>
  \<^verbatim>\<open>
  def make_images(patient, predicted_seg, output_directory, dice, num_images=5):
      assert isinstance(patient, Patient)
      assert isinstance(predicted_seg, np.ndarray)
      assert isinstance(output_directory, str)

      tumor_range = get_tumor_range(patient)

      # Select some slices randomly weighted based on how much tumor is present
      weights = [np.sum(patient.seg[:, :, i]) for i in tumor_range]
      coronal_slices = sorted(random.choices(tumor_range, weights=weights, k=num_images))

      for coronal_index in coronal_slices:
          make_image(patient, predicted_seg, coronal_index, dice, output_directory)
  \<close>
  \<^verbatim>\<open>random.choices\<close> reads \<open>num_images\<close> random numbers when it does not raise.
\<close>

fun render_loop ::
  "(real \<Rightarrow> real \<times> real \<times> real \<times> real) \<Rightarrow> patient \<Rightarrow> int ndarray \<Rightarrow> nat list \<Rightarrow> real \<Rightarrow> string list
     \<Rightarrow> world \<Rightarrow> world \<times> (error + unit)" where
  "render_loop cm patient predicted_seg [] dice output_directory w = (w, Inr ())"
| "render_loop cm patient predicted_seg (coronal_index # rest) dice output_directory w =
     (case make_image cm patient predicted_seg coronal_index dice output_directory w of
        (w', Inl e) \<Rightarrow> (w', Inl e)
      | (w', Inr u) \<Rightarrow> render_loop cm patient predicted_seg rest dice output_directory w')"

definition make_images ::
  "externals \<Rightarrow> patient \<Rightarrow> int ndarray \<Rightarrow> string list \<Rightarrow> real \<Rightarrow> nat \<Rightarrow> world
     \<Rightarrow> world \<times> (error + unit)" where
  "make_images ext patient predicted_seg output_directory dice num_images w =
     (case get_tumor_range patient of
        Inl e \<Rightarrow> (w, Inl e)
      | Inr tumor_range \<Rightarrow>
     (case slice_weights (seg patient) tumor_range of
        Inl e \<Rightarrow> (w, Inl e)
      | Inr weights \<Rightarrow>
     (case coronal_slices (ext_checks_total ext) (ext_random ext) (rng w) tumor_range weights
             num_images of
        Inl e \<Rightarrow> (w, Inl e)
      | Inr slices \<Rightarrow>
          render_loop (ext_cmap ext) patient predicted_seg slices dice output_directory
            (w\<lparr>rng := rng w + num_images\<rparr>))))"

subsection \<open>\<^verbatim>\<open>make_histograms_and_images\<close> and \<^verbatim>\<open>evaluate\<close>\<close>

text \<open>
  \<^verbatim>\<open>
  def make_histograms_and_images(run_model, patient_ids, output_dir, name="unnamed"):

      brats = BraTS.DataSet(brats_root=config.brats_directory, year=2018)

      out_dir = os.path.join(output_dir, name)
      try:
          os.mkdir(out_dir)
      except:
          pass

      def get_segmentation(mri):
          # Formats the patient MRI so that it can be
          # fed into the model and then formats the output
          _mri = np.expand_dims(mri, axis=0)
          out = run_model(_crop(_mri))
          pred_seg = to_single_class(out, threshold=0.5)
          return pred_seg

      dice_coefficients = list()
      for id in patient_ids:
          patient = brats.train.patient(id)

          pred = get_segmentation(patient.mri)
          truth = to_single_class(_crop(patient.seg), threshold=0.5)
          dice = dice_coefficient(pred, truth)

          logger.info("Patient: %s, dice coefficient: %s" % (id, dice))
          dice_coefficients.append(dice)
          make_images(patient, pred, out_dir, dice)
          brats.drop_cache()

      log_metrics(dice_coefficients, name)
  \<close>
  The model \<open>run_model\<close> is a function from its input array to its output, which may
  fail. An exception is not caught anywhere: it ends the loop and the function.
\<close>

definition get_segmentation ::
  "(real ndarray \<Rightarrow> error + real ndarray) \<Rightarrow> real ndarray \<Rightarrow> error + int ndarray" where
  "get_segmentation run_model m =
     (case crop (expand_dims0 m) of
        Inl e \<Rightarrow> Inl e
      | Inr cropped \<Rightarrow>
          (case run_model cropped of
             Inl e \<Rightarrow> Inl e
           | Inr out \<Rightarrow> Inr (to_single_class out (1 / 2))))"

fun patients_loop ::
  "externals \<Rightarrow> dataset \<Rightarrow> (real ndarray \<Rightarrow> error + real ndarray) \<Rightarrow> string list \<Rightarrow> string list
     \<Rightarrow> real list \<Rightarrow> world \<Rightarrow> world \<times> (error + real list)" where
  "patients_loop ext brats run_model [] out_dir dice_coefficients w = (w, Inr dice_coefficients)"
| "patients_loop ext brats run_model (i # rest) out_dir dice_coefficients w =
     (let w1 = emit (Fetch Train i) w in
      case train brats i of
        Inl e \<Rightarrow> (w1, Inl e)
      | Inr patient \<Rightarrow>
     (case get_segmentation run_model (mri patient) of
        Inl e \<Rightarrow> (w1, Inl e)
      | Inr pred \<Rightarrow>
     (case crop (seg patient) of
        Inl e \<Rightarrow> (w1, Inl e)
      | Inr cropped \<Rightarrow>
     (case dice_coefficient pred (to_single_class cropped (1 / 2)) default_smooth of
        Inl e \<Rightarrow> (w1, Inl e)
      | Inr dice \<Rightarrow>
     (case make_images ext patient pred out_dir dice 5 (emit (Info (Patient_dice i dice)) w1) of
        (w2, Inl e) \<Rightarrow> (w2, Inl e)
      | (w2, Inr u) \<Rightarrow>
          patients_loop ext brats run_model rest out_dir (dice_coefficients @ [dice])
            (emit Drop_cache w2))))))"

definition make_histograms_and_images ::
  "externals \<Rightarrow> (real ndarray \<Rightarrow> error + real ndarray) \<Rightarrow> string list \<Rightarrow> string \<Rightarrow> string
     \<Rightarrow> world \<Rightarrow> world \<times> (error + unit)" where
  "make_histograms_and_images ext run_model patient_ids output_dir name w =
     (case ext_dataset ext of
        Inl e \<Rightarrow> (w, Inl e)
      | Inr brats \<Rightarrow>
     (case patients_loop ext brats run_model patient_ids [output_dir, name] []
             (emit (Mkdir [output_dir, name]) w) of
        (w1, Inl e) \<Rightarrow> (w1, Inl e)
      | (w1, Inr dice_coefficients) \<Rightarrow>
     (case log_metrics dice_coefficients name of
        Inl e \<Rightarrow> (w1, Inl e)
      | Inr messages \<Rightarrow> (w1\<lparr>events := events w1 @ map Info messages\<rparr>, Inr ()))))"

text \<open>
  \<^verbatim>\<open>
  def evaluate(run_model, output_dir):

      train_ids, test_ids, validation_ids = get_all_partition_ids()

      logger.info("Evaluating test data...")
      make_histograms_and_images(run_model, test_ids, output_dir)

      logger.info("Evaluating validation data...")
      make_histograms_and_images(run_model, validation_ids, output_dir)

      logger.info("Evaluating training data...")
      make_histograms_and_images(run_model, train_ids, output_dir)
  \<close>
  No call gives a name, so each partition is written under the default \<^verbatim>\<open>"unnamed"\<close>.
\<close>

definition evaluate ::
  "externals \<Rightarrow> (real ndarray \<Rightarrow> error + real ndarray) \<Rightarrow> string \<Rightarrow> world \<Rightarrow> world \<times> (error + unit)" where
  "evaluate ext run_model output_dir w =
     (case ext_partition_ids ext of
        Inl e \<Rightarrow> (w, Inl e)
      | Inr (train_ids, test_ids, validation_ids) \<Rightarrow>
     (case make_histograms_and_images ext run_model test_ids output_dir ''unnamed''
             (emit (Info (Text ''Evaluating test data...'')) w) of
        (w1, Inl e) \<Rightarrow> (w1, Inl e)
      | (w1, Inr u) \<Rightarrow>
     (case make_histograms_and_images ext run_model validation_ids output_dir ''unnamed''
             (emit (Info (Text ''Evaluating validation data...'')) w1) of
        (w2, Inl e) \<Rightarrow> (w2, Inl e)
      | (w2, Inr u) \<Rightarrow>
          make_histograms_and_images ext run_model train_ids output_dir ''unnamed''
            (emit (Info (Text ''Evaluating training data...'')) w2))))"


section \<open>Properties\<close>

subsection \<open>The thresholder\<close>

lemma to_single_class_eq:
  "to_single_class V t = nd_map (\<lambda>x. if t \<le> x then 1 else 0) V"
proof -
  have "map astype_int
          (map2 (\<lambda>x y. if x < t then 0 else y) xs (map (\<lambda>x. if x \<ge> t then 1 else x) xs))
        = map (\<lambda>x. if t \<le> x then 1 else 0) xs" for xs :: "real list"
    by (induction xs) (auto simp: astype_int_def)
  then show ?thesis
    by (simp add: to_single_class_def nd_map_def)
qed

text \<open>
  Claim C5 says that binarization is idempotent for every threshold, also one outside
  the range of a mask. The code is not: with threshold \<open>3/2\<close> the value \<open>2\<close> becomes \<open>1\<close>,
  and \<open>1\<close> becomes \<open>0\<close> when thresholded again.
\<close>

theorem to_single_class_not_idempotent:
  "to_single_class (as_real (to_single_class (NDArray [1] [2]) (3 / 2))) (3 / 2)
     \<noteq> to_single_class (NDArray [1] [2]) (3 / 2)"
  by (simp add: to_single_class_def as_real_def nd_map_def astype_int_def)

text \<open>
  Claim C5, amended: for every volume \<open>V\<close> and every threshold \<open>t\<close> with \<open>0 < t \<le> 1\<close>
  (the file only uses \<open>0.5\<close>), thresholding the thresholded volume again gives the
  same mask.
\<close>

theorem to_single_class_idempotent:
  assumes "0 < t" and "t \<le> 1"
  shows "to_single_class (as_real (to_single_class V t)) t = to_single_class V t"
  using assms by (simp add: to_single_class_eq as_real_def nd_map_def)

theorem to_single_class_idempotent_witness:
  "to_single_class (as_real (to_single_class (NDArray [3] [2 / 10, 5 / 10, 9 / 10]) (1 / 2))) (1 / 2)
     = NDArray [3] [0, 1, 1]"
  using to_single_class_idempotent [of "1 / 2" "NDArray [3] [2 / 10, 5 / 10, 9 / 10]"]
  by (simp add: to_single_class_eq nd_map_def)

subsection \<open>The overlap metric\<close>

lemma binary_overlap_le:
  "length xs = length ys \<Longrightarrow> list_all (\<lambda>x. x = 0 \<or> x = 1) xs \<Longrightarrow>
   list_all (\<lambda>x. x = 0 \<or> x = 1) ys \<Longrightarrow>
   2 * int (length (filter (\<lambda>(p, t). p \<noteq> 0 \<and> t \<noteq> 0) (zip xs ys)))
     \<le> sum_list xs + sum_list (ys :: int list)"
  by (induction xs ys rule: list_induct2) auto

lemma binary_sum_nonneg:
  "list_all (\<lambda>x. x = 0 \<or> x = 1) xs \<Longrightarrow> 0 \<le> sum_list (xs :: int list)"
  by (induction xs) auto

lemma bool_sum_map2:
  "bool_sum (map2 f xs ys) = int (length (filter (\<lambda>(p, t). f p t) (zip xs ys)))"
  by (simp add: bool_sum_def length_filter_map comp_def case_prod_unfold)

text \<open>
  Claim C1: for binarized masks \<open>pred\<close> and \<open>truth\<close> of one shape and \<open>smooth > 0\<close>,
  \<open>dice_coefficient\<close> returns (twice the number of positions where both are nonzero,
  plus \<open>smooth\<close>) divided by (the sum of \<open>pred\<close> plus the sum of \<open>truth\<close> plus \<open>smooth\<close>),
  and that value is positive and at most 1.
\<close>

theorem dice_coefficient_binarized:
  assumes wf: "wf_ndarray pred" "wf_ndarray truth"
    and sh: "shape pred = shape truth"
    and bin: "binarized pred" "binarized truth"
    and sm: "0 < smooth"
  shows "dice_coefficient pred truth smooth =
           Inr ((2 * real (length (filter (\<lambda>(p, t). p \<noteq> 0 \<and> t \<noteq> 0) (zip (data pred) (data truth))))
                   + smooth)
                / (real_of_int (sum_list (data pred)) + real_of_int (sum_list (data truth)) + smooth))
         \<and> 0 < (2 * real (length (filter (\<lambda>(p, t). p \<noteq> 0 \<and> t \<noteq> 0) (zip (data pred) (data truth))))
                   + smooth)
                / (real_of_int (sum_list (data pred)) + real_of_int (sum_list (data truth)) + smooth)
         \<and> (2 * real (length (filter (\<lambda>(p, t). p \<noteq> 0 \<and> t \<noteq> 0) (zip (data pred) (data truth))))
                   + smooth)
                / (real_of_int (sum_list (data pred)) + real_of_int (sum_list (data truth)) + smooth)
             \<le> 1"
proof -
  let ?c = "length (filter (\<lambda>(p, t). p \<noteq> 0 \<and> t \<noteq> 0) (zip (data pred) (data truth)))"
  let ?sp = "sum_list (data pred)" and ?st = "sum_list (data truth)"
  have len: "length (data pred) = length (data truth)"
    using wf sh by (simp add: wf_ndarray_def)
  have le: "2 * int ?c \<le> ?sp + ?st"
    using binary_overlap_le [OF len] bin by (simp add: binarized_def)
  have nn: "0 \<le> ?sp" "0 \<le> ?st"
    using bin binary_sum_nonneg by (auto simp: binarized_def)
  have le': "2 * real ?c \<le> real_of_int ?sp + real_of_int ?st"
  proof -
    have "real_of_int (2 * int ?c) \<le> real_of_int (?sp + ?st)"
      using le by (simp only: of_int_le_iff)
    then show ?thesis by simp
  qed
  have den: "0 < real_of_int ?sp + real_of_int ?st + smooth"
    using nn sm by (simp add: add_nonneg_pos)
  have num: "0 < 2 * real ?c + smooth"
    using sm by (simp add: add_nonneg_pos)
  have eq: "dice_coefficient pred truth smooth =
      Inr ((2 * real ?c + smooth) / (real_of_int ?sp + real_of_int ?st + smooth))"
    using den len
    by (simp add: dice_coefficient_def logical_and_def ravel_def nd_sum_def bool_sum_map2)
  have pos: "0 < (2 * real ?c + smooth) / (real_of_int ?sp + real_of_int ?st + smooth)"
    using num den by simp
  have le1: "(2 * real ?c + smooth) / (real_of_int ?sp + real_of_int ?st + smooth) \<le> 1"
    using le' den by simp
  show ?thesis using eq pos le1 by blast
qed

theorem dice_coefficient_binarized_witness:
  "dice_coefficient (NDArray [2, 2] [1, 1, 0, 0]) (NDArray [2, 2] [1, 0, 1, 0]) default_smooth
     = Inr (101 / 201)"
  using dice_coefficient_binarized
    [of "NDArray [2, 2] [1, 1, 0, 0]" "NDArray [2, 2] [1, 0, 1, 0]" default_smooth]
  by (simp add: wf_ndarray_def binarized_def default_smooth_def)

subsection \<open>The choice of slices\<close>

lemma length_accumulate_from: "length (accumulate_from s ws) = length ws"
  by (induction ws arbitrary: s) auto

lemma last_accumulate_from: "ws \<noteq> [] \<Longrightarrow> last (accumulate_from s ws) = s + sum_list ws"
proof (induction ws arbitrary: s)
  case Nil
  then show ?case by simp
next
  case (Cons w ws)
  show ?case
  proof (cases ws)
    case Nil
    then show ?thesis by simp
  next
    case (Cons v vs)
    then have "accumulate_from (s + w) ws \<noteq> []" by simp
    moreover have "last (accumulate_from (s + w) ws) = s + w + sum_list ws"
      using Cons.IH [of "s + w"] Cons by simp
    ultimately show ?thesis by simp
  qed
qed

lemma length_accumulate: "length (accumulate ws) = length ws"
  by (simp add: accumulate_def length_accumulate_from)

lemma last_accumulate: "ws \<noteq> [] \<Longrightarrow> last (accumulate ws) = sum_list ws"
  by (simp add: accumulate_def last_accumulate_from)

lemma accumulate_not_Nil: "ws \<noteq> [] \<Longrightarrow> accumulate ws \<noteq> []"
  using length_accumulate [of ws] by (metis length_0_conv)

text \<open>The search stays below its upper bound, so the index it returns is inside the
  population.\<close>

lemma bisect_le_hi: "lo \<le> hi \<Longrightarrow> bisect a x lo hi \<le> hi"
proof (induction a x lo hi rule: bisect.induct)
  case (1 a x lo hi)
  show ?case
  proof (cases "lo < hi")
    case False
    then have "bisect a x lo hi = lo" by (subst bisect.simps) simp
    with "1.prems" show ?thesis by simp
  next
    case True
    show ?thesis
    proof (cases "x < a ! ((lo + hi) div 2)")
      case left: True
      have "bisect a x lo ((lo + hi) div 2) \<le> (lo + hi) div 2"
        using "1.IH"(1) [OF True left] True by simp
      then show ?thesis
        using True left by (subst bisect.simps) simp
    next
      case right: False
      have "bisect a x ((lo + hi) div 2 + 1) hi \<le> hi"
        using "1.IH"(2) [OF True right] True by simp
      then show ?thesis
        using True right by (subst bisect.simps) simp
    qed
  qed
qed

lemma choices_Inr:
  assumes "population \<noteq> []" "length weights = length population" "0 < sum_list weights"
  shows "choices c random pos population weights k =
           Inr (map (\<lambda>i. population ! bisect (accumulate weights)
                             (random (pos + i) * sum_list weights) 0 (length population - 1))
                  [0..<k])"
proof -
  have ne: "weights \<noteq> []" using assms by auto
  then show ?thesis
    using assms accumulate_not_Nil [OF ne]
    by (simp add: choices_def Let_def length_accumulate last_accumulate)
qed

lemma sum_list_zero: "list_all (\<lambda>w. w = 0) ws \<Longrightarrow> sum_list ws = (0::real)"
  by (induction ws) auto

text \<open>
  Claim C2 says that the choice is made without replacement and returns a strictly
  ascending sequence of \<open>min k (length extent)\<close> distinct indices. The code calls
  \<^verbatim>\<open>random.choices\<close>, which draws with replacement: from the one-slice extent \<open>[7]\<close> with
  \<open>k = 2\<close> it returns \<open>[7, 7]\<close>, whatever the random numbers and the library are.
\<close>

theorem coronal_slices_repeats:
  "coronal_slices False (\<lambda>i. 0) 0 [7] [3] 2 = Inr [7, 7]
     \<and> coronal_slices True (\<lambda>i. 0) 0 [7] [3] 2 = Inr [7, 7] \<and> \<not> distinct [7, 7 :: nat]
     \<and> length [7, 7 :: nat] \<noteq> min 2 (length [7 :: nat])"
  by code_simp

text \<open>
  Claim C2, amended: for every non-empty extent with aligned weights of positive total
  (non-negative weights that are not all zero, in particular) and every \<open>k\<close>, the choice
  is made with replacement and returns an ascending sequence of exactly \<open>k\<close> indices,
  each a member of the extent; an index may occur several times.
\<close>

theorem coronal_slices_with_replacement:
  assumes "tumor_range \<noteq> []" and "length weights = length tumor_range"
    and "0 < sum_list weights"
  shows "\<exists>ys. coronal_slices c random pos tumor_range weights k = Inr ys \<and>
              length ys = k \<and> sorted ys \<and> set ys \<subseteq> set tumor_range"
proof -
  let ?f = "\<lambda>i. tumor_range ! bisect (accumulate weights) (random (pos + i) * sum_list weights) 0
                                (length tumor_range - 1)"
  have eq: "coronal_slices c random pos tumor_range weights k = Inr (sort (map ?f [0..<k]))"
    using choices_Inr [OF assms] by (simp add: coronal_slices_def)
  have "?f i \<in> set tumor_range" for i
  proof -
    have "bisect (accumulate weights) (random (pos + i) * sum_list weights) 0 (length tumor_range - 1)
            \<le> length tumor_range - 1"
      by (rule bisect_le_hi) simp
    moreover have "0 < length tumor_range" using assms(1) by simp
    ultimately show ?thesis by (intro nth_mem) linarith
  qed
  then have "set (sort (map ?f [0..<k])) \<subseteq> set tumor_range" by auto
  then show ?thesis using eq by simp
qed

theorem coronal_slices_with_replacement_witness:
  "(\<exists>ys. coronal_slices False (\<lambda>i. 1 / 2) 0 [3, 5] [1, 2] 4 = Inr ys \<and>
         length ys = 4 \<and> sorted ys \<and> set ys \<subseteq> set [3, 5])
   \<and> (\<exists>ys. coronal_slices True (\<lambda>i. 1 / 2) 0 [3, 5] [1, 2] 4 = Inr ys \<and>
         length ys = 4 \<and> sorted ys \<and> set ys \<subseteq> set [3, 5])"
  using coronal_slices_with_replacement
      [where tumor_range = "[3, 5]" and weights = "[1, 2]" and random = "\<lambda>i. 1 / 2" and pos = 0
         and k = 4 and c = False]
    coronal_slices_with_replacement
      [where tumor_range = "[3, 5]" and weights = "[1, 2]" and random = "\<lambda>i. 1 / 2" and pos = 0
         and k = 4 and c = True]
  by simp

text \<open>
  The weights that \<open>make_images\<close> gives to \<^verbatim>\<open>random.choices\<close> are the sums that
  \<open>get_tumor_range\<close> found nonzero: line 112 reads \<^verbatim>\<open>np.sum(patient.seg[:, :, i])\<close> again
  for the indices that passed the test of line 68. So no weight is zero, and an extent
  that is not empty never comes with weights that are all zero.
\<close>

lemma tumor_loop_sums:
  "tumor_loop a xs acc = Inr tr \<Longrightarrow> list_all (\<lambda>i. \<exists>s. slice_sum a i = Inr s \<and> s \<noteq> 0) acc \<Longrightarrow>
   list_all (\<lambda>i. \<exists>s. slice_sum a i = Inr s \<and> s \<noteq> 0) tr"
proof (induction xs arbitrary: acc)
  case Nil
  then show ?case by simp
next
  case (Cons i rest)
  from Cons.prems(1) obtain s where s: "slice_sum a i = Inr s"
    by (cases "slice_sum a i") auto
  let ?acc = "if s \<noteq> 0 then acc @ [i] else acc"
  have "tumor_loop a rest ?acc = Inr tr" using Cons.prems(1) s by simp
  moreover have "list_all (\<lambda>i. \<exists>s. slice_sum a i = Inr s \<and> s \<noteq> 0) ?acc"
    using Cons.prems(2) s by simp
  ultimately show ?case by (rule Cons.IH)
qed

lemma slice_weights_sums:
  "list_all (\<lambda>i. \<exists>s. slice_sum a i = Inr s \<and> s \<noteq> 0) tr \<Longrightarrow>
   \<exists>ws. slice_weights a tr = Inr ws \<and> length ws = length tr \<and> list_all (\<lambda>w. w \<noteq> 0) ws"
  by (induction tr) auto

lemma slice_weights_nonzero:
  assumes "get_tumor_range p = Inr tr"
  shows "\<exists>ws. slice_weights (seg p) tr = Inr ws \<and> length ws = length tr \<and> list_all (\<lambda>w. w \<noteq> 0) ws"
proof -
  obtain n where "tumor_loop (seg p) [0..<n] [] = Inr tr"
    using assms by (auto simp: get_tumor_range_def split: sum.splits)
  then have "list_all (\<lambda>i. \<exists>s. slice_sum (seg p) i = Inr s \<and> s \<noteq> 0) tr"
    by (rule tumor_loop_sums) simp
  then show ?thesis by (rule slice_weights_sums)
qed

text \<open>
  What \<^verbatim>\<open>random.choices\<close> does with a total of zero depends on the library: it raises
  \<open>ValueError\<close> where the total is tested, and returns the last index \<open>k\<close> times where it
  is not.
\<close>

lemma coronal_slices_zero_total:
  "coronal_slices True (\<lambda>i. 0) 0 [3, 4] [0, 0] 2 = Inl ValueError
   \<and> coronal_slices False (\<lambda>i. 0) 0 [3, 4] [0, 0] 2 = Inr [4, 4]"
  by code_simp

text \<open>
  Claim C7 says that with an empty extent the choice returns an empty sequence rather
  than failing. The code fails: \<^verbatim>\<open>random.choices\<close> reads \<^verbatim>\<open>cum_weights[-1]\<close> of an empty
  list and raises \<open>IndexError\<close>.
\<close>

theorem coronal_slices_empty_fails:
  "coronal_slices False (\<lambda>i. 0) 0 [] [] 5 = Inl IndexError
   \<and> coronal_slices False (\<lambda>i. 0) 0 [] [] 5 \<noteq> Inr []
   \<and> coronal_slices True (\<lambda>i. 0) 0 [] [] 5 = Inl IndexError
   \<and> coronal_slices True (\<lambda>i. 0) 0 [] [] 5 \<noteq> Inr []"
  by (simp add: coronal_slices_def choices_def accumulate_def)

text \<open>
  Claim C7, amended: for every \<open>k\<close>, when the extent sequence is empty the choice of
  slices fails with \<open>IndexError\<close>; for a patient whose extent is empty \<open>make_images\<close>
  ends with that exception, and no visualization is produced (the events are
  unchanged).
\<close>

theorem make_images_empty_extent:
  "coronal_slices c random pos [] [] k = Inl IndexError
   \<and> (get_tumor_range patient = Inr [] \<longrightarrow>
        make_images ext patient predicted_seg output_directory dice k w = (w, Inl IndexError))"
  by (simp add: coronal_slices_def choices_def accumulate_def make_images_def)

theorem make_images_empty_extent_witness:
  "get_tumor_range \<lparr>patient_id = ''p'', mri = NDArray [1, 1, 1, 1] [0],
      flair = NDArray [1, 1, 1] [0], seg = NDArray [1, 1, 1, 1] [0]\<rparr> = Inr []
   \<and> make_images
        \<lparr>ext_checks_total = False, ext_random = \<lambda>i. 0, ext_cmap = \<lambda>x. (x, x, x, 1), ext_dataset = Inl (External ''none''),
         ext_partition_ids = Inl (External ''none'')\<rparr>
        \<lparr>patient_id = ''p'', mri = NDArray [1, 1, 1, 1] [0],
         flair = NDArray [1, 1, 1] [0], seg = NDArray [1, 1, 1, 1] [0]\<rparr>
        (NDArray [1] [0]) [''out'', ''unnamed''] 1 5 \<lparr>events = [], rng = 0\<rparr>
      = (\<lparr>events = [], rng = 0\<rparr>, Inl IndexError)"
proof -
  have h: "get_tumor_range \<lparr>patient_id = ''p'', mri = NDArray [1, 1, 1, 1] [0],
      flair = NDArray [1, 1, 1] [0], seg = NDArray [1, 1, 1, 1] [0]\<rparr> = Inr []"
    by code_simp
  show ?thesis
    using h make_images_empty_extent
      [of False "\<lambda>i. 0" 0 5
          "\<lparr>patient_id = ''p'', mri = NDArray [1, 1, 1, 1] [0],
            flair = NDArray [1, 1, 1] [0], seg = NDArray [1, 1, 1, 1] [0]\<rparr>"
          "\<lparr>ext_checks_total = False, ext_random = \<lambda>i. 0, ext_cmap = \<lambda>x. (x, x, x, 1), ext_dataset = Inl (External ''none''),
            ext_partition_ids = Inl (External ''none'')\<rparr>"
          "NDArray [1] [0]" "[''out'', ''unnamed'']" 1 "\<lparr>events = [], rng = 0\<rparr>"]
    by blast
qed

subsection \<open>The tumor extent\<close>

lemma get_tumor_range_few_axes: "ndim (seg p) \<le> 3 \<Longrightarrow> get_tumor_range p = Inl IndexError"
  by (simp add: get_tumor_range_def shape_at_def ndim_def)

text \<open>
  Claim C3 says that on a mask volume \<open>get_tumor_range\<close> returns the indices of the last
  axis whose slice has a nonzero sum: nothing on a volume of zeros, \<open>[k]\<close> when the tumor
  is at index \<open>k\<close> only. The code reads \<^verbatim>\<open>patient.seg.shape[3]\<close>, which a volume of three
  axes does not have, and raises \<open>IndexError\<close> on both. On an array of four axes it
  counts along the last axis and indexes the third: the tumor of the second array below
  is at index 1 of the last axis only, and the result is \<open>[0]\<close>.
\<close>

theorem get_tumor_range_volume:
  "get_tumor_range \<lparr>patient_id = ''p'', mri = NDArray [1, 1, 1, 1] [0],
      flair = NDArray [1, 1, 1] [0], seg = NDArray [1, 1, 1] [0]\<rparr> = Inl IndexError
   \<and> get_tumor_range \<lparr>patient_id = ''p'', mri = NDArray [1, 1, 1, 2] [0, 0],
      flair = NDArray [1, 1, 2] [0, 0], seg = NDArray [1, 1, 2] [0, 1]\<rparr> = Inl IndexError
   \<and> get_tumor_range \<lparr>patient_id = ''p'', mri = NDArray [1, 1, 1, 1] [0],
      flair = NDArray [1, 1, 1] [0], seg = NDArray [1, 1, 2, 2] [0, 1, 0, 0]\<rparr> = Inr [0]"
  by (simp add: get_tumor_range_def shape_at_def upt_rec slice_sum_def index_axis2_def ndim_def
      nd_build_def nd_get_def flat_index_def nd_sum_def)

subsection \<open>The summary\<close>

text \<open>
  Claim C8: \<open>log_metrics\<close> fails on an empty list of scores (with the \<open>ValueError\<close> of
  \<^verbatim>\<open>np.min\<close>, before anything is logged, so no \<open>nan\<close> is reported), and for the list
  \<open>[0.5]\<close> it reports mean \<open>0.5\<close>, standard deviation \<open>0\<close>, minimum \<open>0.5\<close> and maximum \<open>0.5\<close>.
\<close>

theorem log_metrics_empty_and_singleton:
  "log_metrics [] name = Inl ValueError \<and>
   log_metrics [1 / 2] name =
     Inr [Evaluation_complete name, Mean_dice (1 / 2), Std_dice 0, Min_dice (1 / 2),
          Max_dice (1 / 2)]"
  by (simp add: log_metrics_def np_mean_def np_std_def np_min_def np_max_def)

subsection \<open>The slice axis\<close>

text \<open>
  Claim C4 says that a slice index means the same slice where the extent is found,
  where the weight is computed and where the figure is made. The extent
  (\<open>get_tumor_range\<close>) and the weights (\<open>make_images\<close>) read \<^verbatim>\<open>patient.seg[:, :, i]\<close>, the
  third axis; \<open>make_image\<close> reads \<^verbatim>\<open>[:, coronal_index, :]\<close>, the second. The segmentation
  below has shape \<open>(1, 2, 2, 2)\<close> (four axes, which line 67 needs) and one tumor voxel, at
  position \<open>(0, 0, 1, 0)\<close>. The extent is \<open>[1]\<close>, the weight of index 1 is 1, and index 1 is
  what \<open>make_images\<close> passes to \<open>make_image\<close>, five times. The mask that \<open>make_image\<close>
  extracts for index 1 is all zero; the voxel is in the mask of index 0, which is not
  in the extent.
\<close>

theorem slice_axis_mismatch:
  "get_tumor_range \<lparr>patient_id = ''p'', mri = NDArray [1, 1, 2, 2, 2] [0, 0, 0, 0, 0, 0, 0, 0],
      flair = NDArray [1, 2, 2, 2] [1, 2, 3, 4, 5, 6, 7, 8],
      seg = NDArray [1, 2, 2, 2] [0, 0, 1, 0, 0, 0, 0, 0]\<rparr> = Inr [1]
   \<and> slice_weights (NDArray [1, 2, 2, 2] [0, 0, 1, 0, 0, 0, 0, 0]) [1] = Inr [1]
   \<and> coronal_slices False (\<lambda>i. 0) 0 [1] [1] 5 = Inr [1, 1, 1, 1, 1]
   \<and> coronal_slices True (\<lambda>i. 0) 0 [1] [1] 5 = Inr [1, 1, 1, 1, 1]
   \<and> display (to_single_class (NDArray [1, 2, 2, 2] [0, 0, 1, 0, 0, 0, 0, 0]) (1 / 2)) 1
       = Inr (NDArray [2, 2, 1] [0, 0, 0, 0])
   \<and> display (to_single_class (NDArray [1, 2, 2, 2] [0, 0, 1, 0, 0, 0, 0, 0]) (1 / 2)) 0
       = Inr (NDArray [2, 2, 1] [0, 0, 0, 1])"
  by code_simp

subsection \<open>The figure\<close>

lemma shape_nd_build [simp]: "shape (nd_build sh f) = sh"
  by (simp add: nd_build_def)

lemma flip_first_shape: "flip_first a = Inr b \<Longrightarrow> shape b = shape a \<and> 2 \<le> length (shape a)"
  by (auto simp: flip_first_def ndim_def split: if_splits)

lemma display_ndim: "display X i = Inr b \<Longrightarrow> 2 \<le> ndim b"
  using flip_first_shape by (fastforce simp: display_def ndim_def split: sum.splits)

lemma set_last_shape: "set_last A V = Inr B \<Longrightarrow> shape B = shape A"
  by (auto simp: set_last_def split: if_splits sum.splits)

lemma colors_of_ndim: "colors_of cm sg = Inr c \<Longrightarrow> ndim c = ndim sg + 1"
  by (auto simp: colors_of_def ndim_def apply_cmap_def normalize_def as_real_def nd_map_def
      dest!: set_last_shape)

lemma colors_p_of_ndim: "colors_p_of cm c s = Inr cp \<Longrightarrow> ndim cp = ndim c + 1"
  by (auto simp: colors_p_of_def ndim_def apply_cmap_def dest!: set_last_shape)

text \<open>
  \<open>make_image\<close> never reaches \<^verbatim>\<open>fig.savefig\<close>: \<open>colors_p\<close> is the colour map applied to the
  RGBA array \<open>colors\<close>, so it has two axes more than the slice, four at least, and
  \<^verbatim>\<open>imshow\<close> refuses it when the assignment before it has not already failed.
\<close>

lemma make_image_fails:
  "\<exists>e. make_image cm patient segmentation coronal_index dice output_dir w = (w, Inl e)"
proof -
  have "\<not> imshow_ok cp"
    if "display (to_single_class (seg patient) (1 / 2)) coronal_index = Inr sg"
      "colors_of cm sg = Inr c" "colors_p_of cm c segmentation = Inr cp" for sg c cp
    using display_ndim [OF that(1)] colors_of_ndim [OF that(2)] colors_p_of_ndim [OF that(3)]
    by (simp add: imshow_ok_def)
  then show ?thesis
    by (auto simp: make_image_def split: sum.splits)
qed

text \<open>
  Claim C9 says that the overlay of the right panel is computed from the slice of the
  predicted mask at the chosen index, transformed like the image. The code computes
  \<open>colors_p\<close> as \<^verbatim>\<open>cmap(colors)\<close>, from the overlay of the ground truth, and assigns the
  whole array \<open>segmentation\<close> to its last channel: the prediction is neither indexed at
  \<open>coronal_index\<close> nor transposed nor reversed. With a prediction of the shape of the
  volume the assignment raises \<open>ValueError\<close>; with one that broadcasts (a single element)
  \<^verbatim>\<open>imshow\<close> raises \<open>TypeError\<close> on the four axes of \<open>colors_p\<close>. No figure is saved.
\<close>

theorem make_image_prediction_overlay:
  "make_image (\<lambda>x. (x, x, x, 1))
     \<lparr>patient_id = ''p'', mri = NDArray [1, 2, 2, 2] [0, 0, 0, 0, 0, 0, 0, 0],
      flair = NDArray [2, 2, 2] [1, 2, 3, 4, 5, 6, 7, 8],
      seg = NDArray [2, 2, 2] [0, 1, 0, 0, 0, 0, 0, 0]\<rparr>
     (NDArray [2, 2, 2] [0, 1, 0, 0, 0, 0, 0, 0]) 0 (1 / 2) [''out'', ''unnamed'']
     \<lparr>events = [], rng = 0\<rparr>
   = (\<lparr>events = [], rng = 0\<rparr>, Inl ValueError)
   \<and> make_image (\<lambda>x. (x, x, x, 1))
     \<lparr>patient_id = ''p'', mri = NDArray [1, 2, 2, 2] [0, 0, 0, 0, 0, 0, 0, 0],
      flair = NDArray [2, 2, 2] [1, 2, 3, 4, 5, 6, 7, 8],
      seg = NDArray [2, 2, 2] [0, 1, 0, 0, 0, 0, 0, 0]\<rparr>
     (NDArray [1] [1]) 0 (1 / 2) [''out'', ''unnamed'']
     \<lparr>events = [], rng = 0\<rparr>
   = (\<lparr>events = [], rng = 0\<rparr>, Inl TypeError)"
  by code_simp

subsection \<open>The partition evaluator\<close>












lemma make_image_world:
  "fst (make_image cm patient segmentation coronal_index dice output_dir w) = w"
  using make_image_fails [of cm patient segmentation coronal_index dice output_dir w] by auto



lemma patients_loop_step:
  obtains (stop) e where
      "patients_loop ext brats run_model (i # rest) out_dir dcs w = (emit (Fetch Train i) w, Inl e)"
  | (images) patient pred dice w2 e where
      "make_images ext patient pred out_dir dice 5
         (emit (Info (Patient_dice i dice)) (emit (Fetch Train i) w)) = (w2, Inl e)"
      "patients_loop ext brats run_model (i # rest) out_dir dcs w = (w2, Inl e)"
  | (continue) patient pred dice w2 u where
      "make_images ext patient pred out_dir dice 5
         (emit (Info (Patient_dice i dice)) (emit (Fetch Train i) w)) = (w2, Inr u)"
      "patients_loop ext brats run_model (i # rest) out_dir dcs w
         = patients_loop ext brats run_model rest out_dir (dcs @ [dice]) (emit Drop_cache w2)"
proof (cases "train brats i")
  case (Inl e)
  then show ?thesis using stop by (simp add: Let_def)
next
  case p: (Inr patient)
  show ?thesis
  proof (cases "get_segmentation run_model (mri patient)")
    case (Inl e)
    then show ?thesis using p stop by (simp add: Let_def)
  next
    case pr: (Inr pred)
    show ?thesis
    proof (cases "crop (seg patient)")
      case (Inl e)
      then show ?thesis using p pr stop by (simp add: Let_def)
    next
      case cr: (Inr cropped)
      show ?thesis
      proof (cases "dice_coefficient pred (to_single_class cropped (1 / 2)) default_smooth")
        case (Inl e)
        then show ?thesis using p pr cr stop by (simp add: Let_def)
      next
        case dc: (Inr dice)
        obtain w2 r where mi: "make_images ext patient pred out_dir dice 5
            (emit (Info (Patient_dice i dice)) (emit (Fetch Train i) w)) = (w2, r)"
          by (cases "make_images ext patient pred out_dir dice 5
            (emit (Info (Patient_dice i dice)) (emit (Fetch Train i) w))")
        show ?thesis
        proof (cases r)
          case (Inl e)
          then show ?thesis using p pr cr dc mi images [of patient pred dice w2 e] by (simp add: Let_def)
        next
          case (Inr u)
          then show ?thesis using p pr cr dc mi continue [of patient pred dice w2 u] by (simp add: Let_def)
        qed
      qed
    qed
  qed
qed






text \<open>
  A run does not get past its first patient. \<open>make_image\<close> always raises, so
  \<open>make_images\<close> raises whenever it is asked for one image at least (the evaluator asks
  for five), the loop over the patients raises inside the first of them, and
  \<^verbatim>\<open>log_metrics\<close> raises on the empty list of scores of an empty partition. The only
  lookup of a run is that of the first id.
\<close>

lemma coronal_slices_length:
  "coronal_slices c random pos tumor_range weights n = Inr slices \<Longrightarrow> length slices = n"
  by (auto simp: coronal_slices_def choices_def Let_def split: sum.splits if_splits)

lemma render_loop_fails:
  "slices \<noteq> [] \<Longrightarrow>
   \<exists>e. render_loop cm patient predicted_seg slices dice output_directory w = (w, Inl e)"
proof (cases slices)
  case Nil
  assume "slices \<noteq> []"
  with Nil show ?thesis by simp
next
  case (Cons coronal_index rest)
  obtain e where "make_image cm patient predicted_seg coronal_index dice output_directory w = (w, Inl e)"
    using make_image_fails by blast
  then show ?thesis using Cons by simp
qed

lemma make_images_fails:
  assumes "0 < n"
  shows "\<exists>w' e. make_images ext patient predicted_seg output_directory dice n w = (w', Inl e)
               \<and> events w' = events w"
proof (cases "get_tumor_range patient")
  case (Inl e)
  then show ?thesis by (simp add: make_images_def)
next
  case tr: (Inr tumor_range)
  show ?thesis
  proof (cases "slice_weights (seg patient) tumor_range")
    case (Inl e)
    then show ?thesis using tr by (simp add: make_images_def)
  next
    case ws: (Inr weights)
    show ?thesis
    proof (cases "coronal_slices (ext_checks_total ext) (ext_random ext) (rng w) tumor_range weights n")
      case (Inl e)
      then show ?thesis using tr ws by (simp add: make_images_def)
    next
      case (Inr slices)
      then have "slices \<noteq> []"
        using coronal_slices_length assms by fastforce
      then obtain e where "render_loop (ext_cmap ext) patient predicted_seg slices dice output_directory
          (w\<lparr>rng := rng w + n\<rparr>) = (w\<lparr>rng := rng w + n\<rparr>, Inl e)"
        using render_loop_fails by blast
      then show ?thesis using tr ws Inr by (simp add: make_images_def)
    qed
  qed
qed

lemma patients_loop_fails:
  "\<exists>w' e. patients_loop ext brats run_model (i # rest) out_dir dcs w = (w', Inl e)
           \<and> (events w' = events w @ [Fetch Train i]
              \<or> (\<exists>dice. events w' = events w @ [Fetch Train i, Info (Patient_dice i dice)]))"
proof (cases rule: patients_loop_step [of ext brats run_model i rest out_dir dcs w])
  case (stop e)
  then show ?thesis by (simp add: emit_def)
next
  case (images patient pred dice w2 e)
  then show ?thesis
    using make_images_fails [of 5 ext patient pred out_dir dice
        "emit (Info (Patient_dice i dice)) (emit (Fetch Train i) w)"]
    by (auto simp: emit_def)
next
  case (continue patient pred dice w2 u)
  then show ?thesis
    using make_images_fails [of 5 ext patient pred out_dir dice
        "emit (Info (Patient_dice i dice)) (emit (Fetch Train i) w)"]
    by auto
qed

lemma make_histograms_and_images_fails:
  "\<exists>w' e. make_histograms_and_images ext run_model patient_ids output_dir name w = (w', Inl e)"
proof (cases "ext_dataset ext")
  case (Inl e)
  then show ?thesis by (simp add: make_histograms_and_images_def)
next
  case (Inr brats)
  show ?thesis
  proof (cases patient_ids)
    case Nil
    then show ?thesis using Inr by (simp add: make_histograms_and_images_def log_metrics_def)
  next
    case (Cons i rest)
    obtain w' e where "patients_loop ext brats run_model (i # rest) [output_dir, name] []
        (emit (Mkdir [output_dir, name]) w) = (w', Inl e)"
      using patients_loop_fails by blast
    then show ?thesis using Inr Cons by (simp add: make_histograms_and_images_def)
  qed
qed

lemma evaluate_fails:
  "\<exists>w' e. evaluate ext run_model output_dir w = (w', Inl e)"
proof (cases "ext_partition_ids ext")
  case (Inl e)
  then show ?thesis by (simp add: evaluate_def)
next
  case (Inr ids)
  obtain train_ids test_ids validation_ids where ids: "ids = (train_ids, test_ids, validation_ids)"
    by (cases ids)
  obtain w' e where "make_histograms_and_images ext run_model test_ids output_dir ''unnamed''
      (emit (Info (Text ''Evaluating test data...'')) w) = (w', Inl e)"
    using make_histograms_and_images_fails by blast
  then show ?thesis using Inr ids by (simp add: evaluate_def)
qed



text \<open>
  A run on a data set whose patients have volumes of three axes, with the identity as
  model: the first patient of the test partition is looked up through the training
  split and scored, and \<open>make_images\<close> ends the run with the \<open>IndexError\<close> of
  \<open>get_tumor_range\<close>.
\<close>

lemma evaluate_example: "evaluate
     \<lparr>ext_checks_total = False, ext_random = \<lambda>i. 0, ext_cmap = \<lambda>x. (x, x, x, 1),
      ext_dataset = Inr \<lparr>train = \<lambda>i. Inr \<lparr>patient_id = i, mri = NDArray [1, 1, 1, 4] [0, 0, 0, 1],
           flair = NDArray [1, 1, 4] [0, 0, 0, 1], seg = NDArray [1, 1, 4] [0, 0, 0, 1]\<rparr>,
         validation = \<lambda>i. Inl (External ''no such patient'')\<rparr>,
      ext_partition_ids = Inr ([''a''], [''b''], [''c''])\<rparr>
     Inr ''out'' \<lparr>events = [], rng = 0\<rparr>
  = (\<lparr>events = [Info (Text ''Evaluating test data...''), Mkdir [''out'', ''unnamed''],
        Fetch Train ''b'', Info (Patient_dice ''b'' 1)], rng = 0\<rparr>, Inl IndexError)"
proof -
  have sg: "get_segmentation Inr (NDArray [1, 1, 1, 4] [0, 0, 0, 1])
      = Inr (NDArray [1, 1, 1, 1, 1] [1])"
    by code_simp
  have cr: "crop (NDArray [1, 1, 4] [0, 0, 0, 1 :: real]) = Inr (NDArray [1, 1, 1] [1])"
    by code_simp
  have dc: "dice_coefficient (NDArray [1, 1, 1, 1, 1] [1]) (to_single_class (NDArray [1, 1, 1] [1]) (1 / 2))
      default_smooth = Inr 1"
    by code_simp
  have mi: "make_images ext \<lparr>patient_id = i, mri = NDArray [1, 1, 1, 4] [0, 0, 0, 1],
           flair = NDArray [1, 1, 4] [0, 0, 0, 1], seg = NDArray [1, 1, 4] [0, 0, 0, 1]\<rparr> pred od d 5 w
      = (w, Inl IndexError)" for ext i pred od d w
    by (simp add: make_images_def get_tumor_range_few_axes ndim_def)
  show ?thesis
    by (simp add: evaluate_def make_histograms_and_images_def Let_def sg cr dc mi emit_def
        del: One_nat_def)
qed

end
